theory Spec2Isabelle
  imports Main "HOL-Library.Sublist"
begin

section \<open>JavaScript values met by the program\<close>

text \<open>
  The reasoning service answers with text that the program hands to \<open>JSON.parse\<close>; the
  result is an untyped JSON value (the TypeScript annotation \<open>GeminiJsonPlan\<close> is erased
  at run time and nothing in the program checks it). A number is given by an integer;
  the numbers of JavaScript that this stands for are the safe integers (magnitude at
  most 2^53 - 1), which are exact and printed in plain decimal digits. Numbers with a
  fraction or beyond that range are not represented, and what is proved of a printed
  number below is under \<open>safe_integer\<close>. An object is the list of its own
  properties; \<open>JSON.parse\<close> leaves each key at most once.
\<close>

datatype json =
    JNull
  | JBool bool
  | JNumber int
  | JString string
  | JArray "json list"
  | JObject "(string \<times> json) list"

text \<open>A value that may also be \<open>undefined\<close> (\<open>None\<close>).\<close>

type_synonym jsval = "json option"

text \<open>
  What a \<open>throw\<close> or a rejected promise carries: an \<open>Error\<close> with its message, a
  \<open>TypeError\<close> raised by the runtime (also an instance of \<open>Error\<close>; the wording of
  its message is the engine's), or a value that is not an instance of \<open>Error\<close>.
\<close>

datatype thrown = Error string | TypeError string | NonError

definition digit :: "nat \<Rightarrow> char" where
  "digit d = ''0123456789'' ! d"

fun digits :: "nat \<Rightarrow> string" where
  "digits n = (if n < 10 then [digit n] else digits (n div 10) @ [digit (n mod 10)])"

declare digits.simps [simp del]

text \<open>The number that a string of decimal digits writes.\<close>

definition decimal_value :: "string \<Rightarrow> nat" where
  "decimal_value cs = foldl (\<lambda>a c. 10 * a + (of_char c - 48)) 0 cs"

fun join :: "string \<Rightarrow> string list \<Rightarrow> string" where
  "join sep [] = []"
| "join sep [x] = x"
| "join sep (x # y # ys) = x @ sep @ join sep (y # ys)"

text \<open>
  \<open>String(v)\<close> for a JSON value, as a template literal applies it. For a number it is
  the plain decimal form, which is what JavaScript prints for a safe integer.
\<close>

fun toString :: "json \<Rightarrow> string" where
  "toString JNull = ''null''"
| "toString (JBool b) = (if b then ''true'' else ''false'')"
| "toString (JNumber n) = (if n < 0 then ''-'' @ digits (nat (- n)) else digits (nat n))"
| "toString (JString s) = s"
| "toString (JArray xs) = join '','' (map (\<lambda>x. if x = JNull then [] else toString x) xs)"
| "toString (JObject kvs) = ''[object Object]''"

definition template :: "jsval \<Rightarrow> string" where
  "template v = (case v of None \<Rightarrow> ''undefined'' | Some j \<Rightarrow> toString j)"




text \<open>
  Reading the property \<open>k\<close> of a parsed value, for the keys this program reads
  (\<open>steps\<close>, \<open>safetyWarning\<close>, \<open>stepNumber\<close>, \<open>description\<close>, \<open>imagePrompt\<close>; none of
  them is a built-in property of a string, number, boolean, array or object):
  \<open>null\<close> throws, an object gives its own property or \<open>undefined\<close>, every other value
  gives \<open>undefined\<close>.
\<close>

fun getProp :: "json \<Rightarrow> string \<Rightarrow> thrown + jsval" where
  "getProp JNull k =
     Inl (TypeError (''Cannot read properties of null (reading '' @ [CHR 0x27] @ k @ [CHR 0x27] @ '')''))"
| "getProp (JObject kvs) k = Inr (map_of kvs k)"
| "getProp (JBool b) k = Inr None"
| "getProp (JNumber n) k = Inr None"
| "getProp (JString s) k = Inr None"
| "getProp (JArray xs) k = Inr None"

text \<open>\<open>s.split(c)\<close> for a one-character separator, and \<open>xs[i]\<close> on the array it returns.\<close>

fun split :: "char \<Rightarrow> string \<Rightarrow> string list" where
  "split c [] = [[]]"
| "split c (x # xs) =
     (if x = c then [] # split c xs
      else (case split c xs of [] \<Rightarrow> [[x]] | p # ps \<Rightarrow> (x # p) # ps))"

definition at_index :: "'a list \<Rightarrow> nat \<Rightarrow> 'a option" where
  "at_index xs i = (if i < length xs then Some (xs ! i) else None)"

section \<open>The data model\<close>

record File =
  file_name :: string
  file_size :: nat
  file_type :: string

record TutorialStep =
  stepNumber :: jsval
  description :: jsval
  imageUrl :: string

record RepairGuide =
  safetyWarning :: jsval
  steps :: "TutorialStep list"

text \<open>
  The text of the planning response, represented by what \<open>JSON.parse\<close> makes of it:
  \<open>NotJSON raw\<close> is a (trimmed) text on which \<open>JSON.parse\<close> throws, \<open>JSONText v\<close> a text
  that it reads as \<open>v\<close>. The SDK's \<open>text\<close> accessor may also give \<open>undefined\<close>.
\<close>

datatype payload = NotJSON string | JSONText json

record GenerateContentResponse =
  responseText :: "payload option"

record Image =
  imageBytes :: "string option"

record GeneratedImage =
  genImage :: "Image option"

record GenerateImagesResponse =
  generatedImages :: "GeneratedImage list option"

section \<open>The environment: configuration, browser and remote services\<close>

text \<open>
  \<open>API_KEY\<close> is \<open>process.env.API_KEY\<close>. \<open>readAsDataURL\<close> is the \<open>FileReader\<close>: the data
  URL of the file, or \<open>None\<close> when \<open>onerror\<close> fires. \<open>generateContent\<close> is the reasoning
  service, applied to the MIME type, the encoded image and the problem description (the
  prompt is a fixed text around the description). \<open>generateImages\<close> is the image
  service, applied to the number of image requests made before in this run and to the
  prompt, so that the same prompt may be answered differently on a later request.
  \<open>createObjectURL\<close> is \<open>URL.createObjectURL\<close>.
\<close>

record Env =
  API_KEY :: "string option"
  readAsDataURL :: "File \<Rightarrow> string option"
  generateContent :: "string \<Rightarrow> string option \<Rightarrow> string \<Rightarrow> thrown + GenerateContentResponse"
  generateImages :: "nat \<Rightarrow> jsval \<Rightarrow> thrown + GenerateImagesResponse"
  createObjectURL :: "File \<Rightarrow> string"

text \<open>What a run does that can be observed from outside, in order.\<close>

datatype event =
    Progress string
  | ReasoningCall string "string option" string
  | ImageCall jsval
  | ConsoleError string

type_synonym 'a run = "event list \<times> (thrown + 'a)"

section \<open>services/geminiService.ts\<close>

definition fileToBase64 :: "Env \<Rightarrow> File \<Rightarrow> thrown + string option" where
  "fileToBase64 e file =
     (case readAsDataURL e file of
        None \<Rightarrow> Inl NonError
      | Some result \<Rightarrow> Inr (at_index (split CHR '','' result) 1))"

definition getMimeType :: "File \<Rightarrow> string" where
  "getMimeType file = file_type file"

text \<open>A string or \<open>undefined\<close> inside a template literal.\<close>

definition template_string :: "string option \<Rightarrow> string" where
  "template_string v = (case v of None \<Rightarrow> ''undefined'' | Some b \<Rightarrow> b)"

definition falsy :: "string option \<Rightarrow> bool" where
  "falsy v = (case v of None \<Rightarrow> True | Some s \<Rightarrow> s = [])"

text \<open>Step 1 of \<open>generateRepairGuide\<close>: the planning request and the parse of its answer.\<close>

definition planning :: "Env \<Rightarrow> string \<Rightarrow> File \<Rightarrow> json run" where
  "planning e problemDescription imageFile =
     (let ev1 = Progress ''Analyzing item and planning repair...'' in
      case fileToBase64 e imageFile of
        Inl err \<Rightarrow> ([ev1], Inl err)
      | Inr base64Image \<Rightarrow>
          (let mimeType = getMimeType imageFile;
               ev2 = ReasoningCall mimeType base64Image problemDescription in
           case generateContent e mimeType base64Image problemDescription of
             Inl err \<Rightarrow> ([ev1, ev2], Inl err)
           | Inr planningResponse \<Rightarrow>
               (case responseText planningResponse of
                  None \<Rightarrow>
                    ([ev1, ev2],
                     Inl (TypeError ''Cannot read properties of undefined (reading 'trim')''))
                | Some (NotJSON jsonString) \<Rightarrow>
                    ([ev1, ev2, ConsoleError jsonString],
                     Inl (Error ''The AI returned an unexpected format. Please try again.''))
                | Some (JSONText plan) \<Rightarrow> ([ev1, ev2], Inr plan))))"

text \<open>\<open>plan.steps.entries()\<close>: only an array has the method.\<close>

definition steps_entries :: "json \<Rightarrow> thrown + json list" where
  "steps_entries plan =
     (case getProp plan ''steps'' of
        Inl err \<Rightarrow> Inl err
      | Inr None \<Rightarrow> Inl (TypeError ''Cannot read properties of undefined (reading 'entries')'')
      | Inr (Some JNull) \<Rightarrow> Inl (TypeError ''Cannot read properties of null (reading 'entries')'')
      | Inr (Some (JArray ss)) \<Rightarrow> Inr ss
      | Inr (Some _) \<Rightarrow>
          Inl (TypeError
            ''plan.steps.entries is not a function or its return value is not iterable''))"

definition no_images :: "GenerateImagesResponse \<Rightarrow> bool" where
  "no_images r = (case generatedImages r of None \<Rightarrow> True | Some imgs \<Rightarrow> length imgs = 0)"

definition step_message :: "nat \<Rightarrow> nat \<Rightarrow> string" where
  "step_message index n =
     ''Generating image for step '' @ digits (index + 1) @ '' of '' @ digits n @ ''...''"

definition failed_message :: "jsval \<Rightarrow> string" where
  "failed_message num = ''Failed to generate an image for step '' @ template num @ ''.''"

text \<open>
  Step 2, the body of the loop over \<open>plan.steps.entries()\<close>: \<open>n\<close> is
  \<open>plan.steps.length\<close>, \<open>index\<close> the loop position. It gives the step that the loop
  pushes.
\<close>

definition loop_body :: "Env \<Rightarrow> nat \<Rightarrow> nat \<Rightarrow> json \<Rightarrow> TutorialStep run" where
  "loop_body e n index step =
     (let ev1 = Progress (step_message index n) in
      case getProp step ''imagePrompt'' of
        Inl err \<Rightarrow> ([ev1], Inl err)
      | Inr prompt \<Rightarrow>
          (let ev2 = ImageCall prompt in
           case generateImages e index prompt of
             Inl err \<Rightarrow> ([ev1, ev2], Inl err)
           | Inr imageGenerationResponse \<Rightarrow>
               if no_images imageGenerationResponse
               then (case getProp step ''stepNumber'' of
                       Inl err \<Rightarrow> ([ev1, ev2], Inl err)
                     | Inr num \<Rightarrow> ([ev1, ev2], Inl (Error (failed_message num))))
               else
                 (case genImage (hd (the (generatedImages imageGenerationResponse))) of
                    None \<Rightarrow>
                      ([ev1, ev2],
                       Inl (TypeError
                         ''Cannot read properties of undefined (reading 'imageBytes')''))
                  | Some img \<Rightarrow>
                      (let base64ImageData = template_string (imageBytes img);
                           url = ''data:image/jpeg;base64,'' @ base64ImageData
                       in case getProp step ''stepNumber'' of
                            Inl err \<Rightarrow> ([ev1, ev2], Inl err)
                          | Inr num \<Rightarrow>
                              (case getProp step ''description'' of
                                 Inl err \<Rightarrow> ([ev1, ev2], Inl err)
                               | Inr desc \<Rightarrow>
                                   ([ev1, ev2],
                                    Inr \<lparr>stepNumber = num, description = desc,
                                         imageUrl = url\<rparr>))))))"

text \<open>The loop: \<open>generatedSteps\<close> is the array built so far.\<close>

fun image_loop ::
  "Env \<Rightarrow> nat \<Rightarrow> nat \<Rightarrow> json list \<Rightarrow> TutorialStep list \<Rightarrow> TutorialStep list run" where
  "image_loop e n index [] generatedSteps = ([], Inr generatedSteps)"
| "image_loop e n index (step # rest) generatedSteps =
     (case loop_body e n index step of
        (evs, Inl err) \<Rightarrow> (evs, Inl err)
      | (evs, Inr tutorialStep) \<Rightarrow>
          (case image_loop e n (index + 1) rest (generatedSteps @ [tutorialStep]) of
             (evs', r) \<Rightarrow> (evs @ evs', r)))"

definition generateRepairGuide :: "Env \<Rightarrow> string \<Rightarrow> File \<Rightarrow> RepairGuide run" where
  "generateRepairGuide e problemDescription imageFile =
     (if falsy (API_KEY e)
      then ([], Inl (Error ''API_KEY environment variable is not set.''))
      else
        (case planning e problemDescription imageFile of
           (evs, Inl err) \<Rightarrow> (evs, Inl err)
         | (evs, Inr plan) \<Rightarrow>
             (case steps_entries plan of
                Inl err \<Rightarrow> (evs, Inl err)
              | Inr ss \<Rightarrow>
                  (case image_loop e (length ss) 0 ss [] of
                     (evs', Inl err) \<Rightarrow> (evs @ evs', Inl err)
                   | (evs', Inr generatedSteps) \<Rightarrow>
                       (case getProp plan ''safetyWarning'' of
                          Inl err \<Rightarrow> (evs @ evs', Inl err)
                        | Inr warning \<Rightarrow>
                            (evs @ evs',
                             Inr \<lparr>safetyWarning = warning, steps = generatedSteps\<rparr>))))))"

section \<open>App.tsx: the state of the component and its handlers\<close>

text \<open>
  The \<open>useState\<close> slots of \<open>App\<close>, and \<open>fileInputRef\<close>: the value of the file input
  that the ref points to, \<open>None\<close> while the input is not on the page (\<open>current\<close> is
  then \<open>null\<close>).
\<close>

record ShellState =
  problemDescription :: string
  imageFile :: "File option"
  previewUrl :: "string option"
  guide :: "RepairGuide option"
  isLoading :: bool
  loadingMessage :: string
  error :: "string option"
  fileInputRef :: "string option"

definition initialState :: ShellState where
  "initialState =
     \<lparr>problemDescription = [], imageFile = None, previewUrl = None, guide = None,
      isLoading = False, loadingMessage = [], error = None, fileInputRef = Some []\<rparr>"

text \<open>
  What the authenticated page renders: the form under \<open>!guide && !isLoading\<close>, the
  spinner under \<open>isLoading\<close>, the guide under \<open>guide\<close>.
\<close>

definition showsForm :: "ShellState \<Rightarrow> bool" where
  "showsForm s = (guide s = None \<and> \<not> isLoading s)"

definition showsLoading :: "ShellState \<Rightarrow> bool" where
  "showsLoading s = isLoading s"

definition showsResult :: "ShellState \<Rightarrow> bool" where
  "showsResult s = (guide s \<noteq> None)"

text \<open>
  The input that carries \<open>ref={fileInputRef}\<close> is part of the form. When a change of
  state is put on the page, the ref is \<open>null\<close> if the form is not shown, a form that
  stays keeps its input, and a form that comes back has a new, empty input.
\<close>

definition commit :: "ShellState \<Rightarrow> ShellState" where
  "commit s =
     (if showsForm s
      then (case fileInputRef s of None \<Rightarrow> s\<lparr>fileInputRef := Some []\<rparr> | Some v \<Rightarrow> s)
      else s\<lparr>fileInputRef := None\<rparr>)"

text \<open>
  \<open>handleFileChange\<close>; \<open>file\<close> is \<open>event.target.files?.[0]\<close>. The browser has put
  the chosen path in the input before the handler runs: the state it is given holds it.
\<close>

definition handleFileChange :: "Env \<Rightarrow> File option \<Rightarrow> ShellState \<Rightarrow> ShellState" where
  "handleFileChange e file s =
     (case file of
        None \<Rightarrow> s
      | Some f \<Rightarrow>
          if file_size f > 4 * 1024 * 1024
          then s\<lparr>error := Some ''Image file is too large. Please select a file under 4MB.''\<rparr>
          else s\<lparr>imageFile := Some f, previewUrl := Some (createObjectURL e f),
                 error := None\<rparr>)"

text \<open>
  \<open>handleGenerateGuide\<close>, in three parts: the settings made before the service is
  called, the service's progress callback (\<open>setLoadingMessage\<close>), and the settings made
  by \<open>try\<close>/\<open>catch\<close>/\<open>finally\<close> once the call is over.
\<close>

text \<open>The states reached from \<open>s\<close> along a list of events, \<open>s\<close> first.\<close>

fun scan :: "('s \<Rightarrow> 'a \<Rightarrow> 's) \<Rightarrow> 's \<Rightarrow> 'a list \<Rightarrow> 's list" where
  "scan f s [] = [s]"
| "scan f s (x # xs) = s # scan f (f s x) xs"

definition startRequest :: "ShellState \<Rightarrow> ShellState" where
  "startRequest s =
     s\<lparr>error := None, isLoading := True, guide := None,
       loadingMessage := ''Starting the repair guide generation...''\<rparr>"

fun onEvent :: "ShellState \<Rightarrow> event \<Rightarrow> ShellState" where
  "onEvent s (Progress message) = s\<lparr>loadingMessage := message\<rparr>"
| "onEvent s (ReasoningCall m d p) = s"
| "onEvent s (ImageCall p) = s"
| "onEvent s (ConsoleError t) = s"

definition errorMessage :: "thrown \<Rightarrow> string" where
  "errorMessage err =
     (case err of
        Error message \<Rightarrow> message
      | TypeError message \<Rightarrow> message
      | NonError \<Rightarrow> ''An unknown error occurred.'')"

definition finishRequest :: "thrown + RepairGuide \<Rightarrow> ShellState \<Rightarrow> ShellState" where
  "finishRequest outcome s =
     (let s' = (case outcome of
                  Inr result \<Rightarrow> s\<lparr>guide := Some result\<rparr>
                | Inl err \<Rightarrow> s\<lparr>error := Some (errorMessage err)\<rparr>)
      in s'\<lparr>isLoading := False, loadingMessage := []\<rparr>)"

text \<open>
  The states the component goes through, in order, each as it is put on the page; the
  last one is the state when the handler is over. With the form incomplete there is
  one, and the service is not called.
\<close>

definition handleGenerateGuide :: "Env \<Rightarrow> ShellState \<Rightarrow> ShellState list" where
  "handleGenerateGuide e s =
     (if problemDescription s = [] \<or> imageFile s = None
      then [s\<lparr>error := Some ''Please provide a description and an image.''\<rparr>]
      else
        (case generateRepairGuide e (problemDescription s) (the (imageFile s)) of
           (evs, outcome) \<Rightarrow>
             (let during = scan onEvent (commit (startRequest s)) evs
              in during @ [commit (finishRequest outcome (last during))])))"

text \<open>
  \<open>handleReset\<close>: the five settings, the write to the input if the ref holds one, and
  the page that follows.
\<close>

definition handleReset :: "ShellState \<Rightarrow> ShellState" where
  "handleReset s =
     (let s' = s\<lparr>problemDescription := [], imageFile := None, previewUrl := None,
                 guide := None, error := None\<rparr>
      in commit (case fileInputRef s' of
                   None \<Rightarrow> s'
                 | Some v \<Rightarrow> s'\<lparr>fileInputRef := Some []\<rparr>))"

section \<open>The progress protocol as the specification words it\<close>


fun spec_step_events :: "string \<Rightarrow> nat \<Rightarrow> nat \<Rightarrow> jsval list \<Rightarrow> event list" where
  "spec_step_events dots i N [] = []"
| "spec_step_events dots i N (p # ps) =
     Progress (''Generating image for step '' @ digits i @ '' of '' @ digits N @ dots)
       # ImageCall p # spec_step_events dots (i + 1) N ps"

definition spec_trace ::
  "string \<Rightarrow> string \<Rightarrow> string option \<Rightarrow> string \<Rightarrow> jsval list \<Rightarrow> event list" where
  "spec_trace dots mimeType data problem prompts =
     Progress (''Analyzing item and planning repair'' @ dots)
       # ReasoningCall mimeType data problem
       # spec_step_events dots 1 (length prompts) prompts"

text \<open>The prompt a plan step carries (\<open>undefined\<close> where it has none).\<close>

definition prompt_of :: "json \<Rightarrow> jsval" where
  "prompt_of step = (case getProp step ''imagePrompt'' of Inl err \<Rightarrow> None | Inr p \<Rightarrow> p)"

definition is_image_call :: "event \<Rightarrow> bool" where
  "is_image_call ev = (case ev of ImageCall p \<Rightarrow> True | _ \<Rightarrow> False)"

definition is_reasoning_call :: "event \<Rightarrow> bool" where
  "is_reasoning_call ev = (case ev of ReasoningCall m d p \<Rightarrow> True | _ \<Rightarrow> False)"

section \<open>Example environments\<close>

text \<open>
  Concrete inputs on which the theorems below are exercised: a photo, a configured
  environment whose reasoning service answers with a given payload and whose image
  service follows a given function, plan steps and image responses.
\<close>

definition photo :: File where
  "photo = \<lparr>file_name = ''chair.jpg'', file_size = 2048, file_type = ''image/jpeg''\<rparr>"

definition oneImage :: "string \<Rightarrow> GenerateImagesResponse" where
  "oneImage bytes =
     \<lparr>generatedImages = Some [\<lparr>genImage = Some \<lparr>imageBytes = Some bytes\<rparr>\<rparr>]\<rparr>"

definition zeroImages :: GenerateImagesResponse where
  "zeroImages = \<lparr>generatedImages = Some []\<rparr>"

definition planStep :: "int \<Rightarrow> string \<Rightarrow> string \<Rightarrow> json" where
  "planStep n d p =
     JObject [(''stepNumber'', JNumber n), (''description'', JString d),
              (''imagePrompt'', JString p)]"

definition planOf :: "json list \<Rightarrow> json" where
  "planOf ss = JObject [(''safetyWarning'', JNull), (''steps'', JArray ss)]"

definition serviceEnv ::
  "string option \<Rightarrow> payload option \<Rightarrow>
   (nat \<Rightarrow> jsval \<Rightarrow> thrown + GenerateImagesResponse) \<Rightarrow> Env" where
  "serviceEnv key answer images =
     \<lparr>API_KEY = key,
      readAsDataURL = (\<lambda>file. Some ''data:image/jpeg;base64,QUJD''),
      generateContent = (\<lambda>mimeType data description. Inr \<lparr>responseText = answer\<rparr>),
      generateImages = images,
      createObjectURL = (\<lambda>file. ''blob:'' @ file_name file)\<rparr>"

definition threeSteps :: "json list" where
  "threeSteps =
     [planStep 1 ''Gather wood glue and a clamp.'' ''glue and clamp on a bench'',
      planStep 2 ''Spread glue into the crack.'' ''glue in a cracked chair leg'',
      planStep 3 ''Clamp the leg overnight.'' ''clamped chair leg'']"

definition twoSteps :: "json list" where
  "twoSteps =
     [planStep 1 ''Gather wood glue and a clamp.'' ''glue and clamp on a bench'',
      planStep 2 ''Glue and clamp the leg.'' ''clamped chair leg'']"

definition misnumberedSteps :: "json list" where
  "misnumberedSteps =
     [planStep 7 ''Gather wood glue and a clamp.'' ''glue and clamp on a bench'',
      planStep 7 ''Spread glue into the crack.'' ''glue in a cracked chair leg'',
      planStep 2 ''Clamp the leg overnight.'' ''clamped chair leg'']"

definition oneStep :: "json list" where
  "oneStep = [planStep 1 ''Glue and clamp the leg.'' ''clamped chair leg'']"


definition alwaysOne :: "nat \<Rightarrow> jsval \<Rightarrow> thrown + GenerateImagesResponse" where
  "alwaysOne calls prompt = Inr (oneImage ''QUJD'')"

definition noneAtSecond :: "nat \<Rightarrow> jsval \<Rightarrow> thrown + GenerateImagesResponse" where
  "noneAtSecond calls prompt = (if calls = 1 then Inr zeroImages else Inr (oneImage ''QUJD''))"

definition problem :: string where
  "problem = ''Cracked wooden chair leg''"

definition planEnv ::
  "json list \<Rightarrow> (nat \<Rightarrow> jsval \<Rightarrow> thrown + GenerateImagesResponse) \<Rightarrow> Env" where
  "planEnv ss images = serviceEnv (Some ''key'') (Some (JSONText (planOf ss))) images"

definition okEnv :: Env where
  "okEnv = planEnv threeSteps alwaysOne"

definition garbledEnv :: Env where
  "garbledEnv = serviceEnv (Some ''key'') (Some (NotJSON ''Sorry, I cannot help.'')) alwaysOne"

definition noKeyEnv :: Env where
  "noKeyEnv = serviceEnv None (Some (JSONText (planOf threeSteps))) alwaysOne"

definition guideOf :: "(int \<times> string) list \<Rightarrow> RepairGuide" where
  "guideOf rows =
     \<lparr>safetyWarning = Some JNull,
      steps = map (\<lambda>(n, d). \<lparr>stepNumber = Some (JNumber n), description = Some (JString d),
                              imageUrl = ''data:image/jpeg;base64,QUJD''\<rparr>) rows\<rparr>"

definition unreadableEnv :: Env where
  "unreadableEnv = okEnv\<lparr>readAsDataURL := (\<lambda>file. None)\<rparr>"

definition emptyObjectEnv :: Env where
  "emptyObjectEnv = serviceEnv (Some ''key'') (Some (JSONText (JObject []))) alwaysOne"

definition filledForm :: ShellState where
  "filledForm =
     initialState\<lparr>problemDescription := problem, imageFile := Some photo,
                  previewUrl := Some ''blob:chair.jpg'',
                  fileInputRef :=
                    Some (''C:'' @ [CHR 0x5C] @ ''fakepath'' @ [CHR 0x5C] @ ''chair.jpg'')\<rparr>"

definition resultPage :: ShellState where
  "resultPage =
     filledForm\<lparr>guide := Some (guideOf [(1, ''Glue and clamp the leg.'')]),
                fileInputRef := None\<rparr>"

section \<open>Printing a number\<close>

text \<open>\<open>digits\<close> writes a natural number in decimal: reading the digits back gives it.\<close>

lemma digit_value: "d < 10 \<Longrightarrow> of_char (digit d) = 48 + d"
proof -
  assume "d < 10"
  then have "d = 0 \<or> d = 1 \<or> d = 2 \<or> d = 3 \<or> d = 4 \<or> d = 5 \<or> d = 6 \<or> d = 7 \<or>
    d = 8 \<or> d = 9"
    by arith
  then show ?thesis by (elim disjE) (simp_all add: digit_def)
qed

lemma digits_value: "decimal_value (digits n) = n"
proof (induction n rule: digits.induct)
  case (1 n)
  show ?case
  proof (cases "n < 10")
    case True
    then show ?thesis by (simp add: digits.simps[of n] digit_value decimal_value_def)
  next
    case False
    then have "decimal_value (digits (n div 10)) = n div 10" using 1 by simp
    moreover have "digits n = digits (n div 10) @ [digit (n mod 10)]"
      using False by (simp add: digits.simps[of n])
    ultimately show ?thesis
      by (simp add: decimal_value_def digit_value)
  qed
qed

section \<open>The image loop\<close>

text \<open>
  A pass of the loop body that gives a step has emitted the step's message and its image
  call, has got at least one image, and has copied the number and the description.
\<close>

lemma loop_body_Inr:
  assumes "loop_body e n i step = (evs, Inr t)"
  shows "evs = [Progress (step_message i n), ImageCall (prompt_of step)]"
    and "getProp step ''stepNumber'' = Inr (stepNumber t)"
    and "getProp step ''description'' = Inr (description t)"
    and "\<exists>r. generateImages e i (prompt_of step) = Inr r \<and> \<not> no_images r"
proof -
  from assms obtain p where p: "getProp step ''imagePrompt'' = Inr p"
    unfolding loop_body_def Let_def by (cases "getProp step ''imagePrompt''") simp_all
  from assms p obtain r where r: "generateImages e i p = Inr r"
    unfolding loop_body_def Let_def by (cases "generateImages e i p") simp_all
  from assms p r have n: "\<not> no_images r"
    unfolding loop_body_def Let_def by (cases "no_images r"; cases "getProp step ''stepNumber''") simp_all
  from assms p r n obtain img where img: "genImage (hd (the (generatedImages r))) = Some img"
    unfolding loop_body_def Let_def by (cases "genImage (hd (the (generatedImages r)))") simp_all
  from assms p r n img obtain num where num: "getProp step ''stepNumber'' = Inr num"
    unfolding loop_body_def Let_def by (cases "getProp step ''stepNumber''") simp_all
  from assms p r n img num obtain d where d: "getProp step ''description'' = Inr d"
    unfolding loop_body_def Let_def by (cases "getProp step ''description''") simp_all
  from assms p r n img num d have
    "evs = [Progress (step_message i n), ImageCall p]" "stepNumber t = num" "description t = d"
    unfolding loop_body_def Let_def by auto
  with p r n num d show "evs = [Progress (step_message i n), ImageCall (prompt_of step)]"
    and "getProp step ''stepNumber'' = Inr (stepNumber t)"
    and "getProp step ''description'' = Inr (description t)"
    and "\<exists>r. generateImages e i (prompt_of step) = Inr r \<and> \<not> no_images r"
    by (simp_all add: prompt_of_def)
qed




lemma image_loop_Inr:
  "image_loop e n i ss acc = (evs, Inr g) \<Longrightarrow>
     (\<exists>ts. g = acc @ ts \<and> length ts = length ss
        \<and> map (\<lambda>s. getProp s ''stepNumber'') ss = map (\<lambda>t. Inr (stepNumber t)) ts
        \<and> map (\<lambda>s. getProp s ''description'') ss = map (\<lambda>t. Inr (description t)) ts)
     \<and> evs = spec_step_events ''...'' (Suc i) n (map prompt_of ss)
     \<and> (\<forall>j<length ss. \<exists>r. generateImages e (i + j) (prompt_of (ss ! j)) = Inr r \<and> \<not> no_images r)"
proof (induction ss arbitrary: i acc evs g)
  case Nil
  then show ?case by simp
next
  case (Cons step rest)
  obtain evs1 r1 where b: "loop_body e n i step = (evs1, r1)" by (cases "loop_body e n i step")
  with Cons.prems obtain t where r1: "r1 = Inr t" by (cases r1) simp_all
  obtain evs2 r2 where l: "image_loop e n (i + 1) rest (acc @ [t]) = (evs2, r2)"
    by (cases "image_loop e n (i + 1) rest (acc @ [t])")
  from Cons.prems b r1 l have r2: "r2 = Inr g" and evs: "evs = evs1 @ evs2" by simp_all
  have body: "loop_body e n i step = (evs1, Inr t)" using b r1 by simp
  have rest: "image_loop e n (i + 1) rest (acc @ [t]) = (evs2, Inr g)" using l r2 by simp
  note B = loop_body_Inr[OF body]
  from Cons.IH[OF rest] obtain ts where
    ts: "g = (acc @ [t]) @ ts" "length ts = length rest"
      "map (\<lambda>s. getProp s ''stepNumber'') rest = map (\<lambda>t. Inr (stepNumber t)) ts"
      "map (\<lambda>s. getProp s ''description'') rest = map (\<lambda>t. Inr (description t)) ts"
    and ev2: "evs2 = spec_step_events ''...'' (Suc (i + 1)) n (map prompt_of rest)"
    and im: "\<forall>j<length rest. \<exists>r. generateImages e (i + 1 + j) (prompt_of (rest ! j)) = Inr r \<and> \<not> no_images r"
    by blast
  have 1: "\<exists>ts'. g = acc @ ts' \<and> length ts' = length (step # rest)
        \<and> map (\<lambda>s. getProp s ''stepNumber'') (step # rest) = map (\<lambda>t. Inr (stepNumber t)) ts'
        \<and> map (\<lambda>s. getProp s ''description'') (step # rest) = map (\<lambda>t. Inr (description t)) ts'"
    using ts B(2,3) by (intro exI[of _ "t # ts"]) simp
  have 2: "evs = spec_step_events ''...'' (Suc i) n (map prompt_of (step # rest))"
    using evs B(1) ev2 by (simp add: step_message_def)
  have 3: "\<forall>j<length (step # rest). \<exists>r. generateImages e (i + j) (prompt_of ((step # rest) ! j)) = Inr r \<and> \<not> no_images r"
  proof (intro allI impI)
    fix j assume j: "j < length (step # rest)"
    show "\<exists>r. generateImages e (i + j) (prompt_of ((step # rest) ! j)) = Inr r \<and> \<not> no_images r"
    proof (cases j)
      case 0
      then show ?thesis using B(4) by simp
    next
      case (Suc k)
      with j have "k < length rest" by simp
      with im have "\<exists>r. generateImages e (i + 1 + k) (prompt_of (rest ! k)) = Inr r \<and> \<not> no_images r"
        by blast
      with Suc show ?thesis by simp
    qed
  qed
  from 1 2 3 show ?case by blast
qed



lemma getProp_other:
  "getProp step k = Inr v \<Longrightarrow> \<exists>w. getProp step k' = Inr w"
  by (cases step) simp_all





lemma generateRepairGuide_Inr:
  assumes "generateRepairGuide e d f = (evs, Inr g)"
  shows "\<exists>evs0 plan ss evs1.
           \<not> falsy (API_KEY e) \<and> planning e d f = (evs0, Inr plan) \<and>
           steps_entries plan = Inr ss \<and>
           image_loop e (length ss) 0 ss [] = (evs1, Inr (steps g)) \<and>
           evs = evs0 @ evs1 \<and> getProp plan ''safetyWarning'' = Inr (safetyWarning g)"
  using assms
  by (auto simp: generateRepairGuide_def split: if_splits prod.splits sum.splits)



section \<open>The example runs\<close>

text \<open>The runs on the example environments, evaluated once for the theorems below.\<close>

lemmas fixture_defs =
  planEnv_def serviceEnv_def photo_def problem_def planOf_def planStep_def
  alwaysOne_def noneAtSecond_def oneImage_def zeroImages_def guideOf_def

lemmas run_defs =
  generateRepairGuide_def falsy_def planning_def fileToBase64_def at_index_def
  getMimeType_def steps_entries_def loop_body_def no_images_def template_string_def
  step_message_def failed_message_def template_def digits.simps digit_def Let_def

lemma okEnv_run:
  "generateRepairGuide okEnv problem photo =
     (spec_trace ''...'' ''image/jpeg'' (Some ''QUJD'') problem (map prompt_of threeSteps),
      Inr (guideOf [(1, ''Gather wood glue and a clamp.''), (2, ''Spread glue into the crack.''),
                    (3, ''Clamp the leg overnight.'')]))"
  by (simp add: okEnv_def threeSteps_def fixture_defs run_defs spec_trace_def prompt_of_def)

lemma twoSteps_run:
  "generateRepairGuide (planEnv twoSteps alwaysOne) problem photo =
     (spec_trace ''...'' ''image/jpeg'' (Some ''QUJD'') problem (map prompt_of twoSteps),
      Inr (guideOf [(1, ''Gather wood glue and a clamp.''), (2, ''Glue and clamp the leg.'')]))"
  by (simp add: twoSteps_def fixture_defs run_defs spec_trace_def prompt_of_def)

lemma failing_run:
  "generateRepairGuide (planEnv threeSteps noneAtSecond) problem photo =
     (take 6 (spec_trace ''...'' ''image/jpeg'' (Some ''QUJD'') problem (map prompt_of threeSteps)),
      Inl (Error ''Failed to generate an image for step 2.''))"
  by (simp add: threeSteps_def fixture_defs run_defs spec_trace_def prompt_of_def)


lemma oneStep_run:
  "generateRepairGuide (planEnv oneStep alwaysOne) problem photo =
     (spec_trace ''...'' ''image/jpeg'' (Some ''QUJD'') problem (map prompt_of oneStep),
      Inr (guideOf [(1, ''Glue and clamp the leg.'')]))"
  by (simp add: oneStep_def fixture_defs run_defs spec_trace_def prompt_of_def)

lemma misnumbered_run:
  "generateRepairGuide (planEnv misnumberedSteps alwaysOne) problem photo =
     (spec_trace ''...'' ''image/jpeg'' (Some ''QUJD'') problem (map prompt_of misnumberedSteps),
      Inr (guideOf [(7, ''Gather wood glue and a clamp.''), (7, ''Spread glue into the crack.''),
                    (2, ''Clamp the leg overnight.'')]))"
  by (simp add: misnumberedSteps_def fixture_defs run_defs spec_trace_def prompt_of_def)



lemma plan_run:
  "planning (planEnv ss images) problem photo =
     ([Progress ''Analyzing item and planning repair...'',
       ReasoningCall ''image/jpeg'' (Some ''QUJD'') problem], Inr (planOf ss))"
  by (simp add: planEnv_def serviceEnv_def planning_def fileToBase64_def at_index_def
      getMimeType_def photo_def)

lemma plan_entries: "steps_entries (planOf ss) = Inr ss"
  by (simp add: steps_entries_def planOf_def)


section \<open>The guide orchestrator\<close>

text \<open>
  C1, as the code has it: a run of \<open>generateRepairGuide\<close> that returns a guide has
  parsed a plan whose \<open>steps\<close> is an array, and the guide has exactly one step per
  element of that array. The code puts no bound on the number of steps; the request for
  3 to 5 steps is part of the prompt only.
\<close>

theorem guide_length_is_plan_length:
  assumes "generateRepairGuide e d f = (evs, Inr g)"
  shows "\<exists>evs0 plan ss. planning e d f = (evs0, Inr plan) \<and> steps_entries plan = Inr ss \<and>
           length (steps g) = length ss"
proof -
  from generateRepairGuide_Inr[OF assms] obtain evs0 plan ss evs1 where
    p: "planning e d f = (evs0, Inr plan)" and s: "steps_entries plan = Inr ss" and
    l: "image_loop e (length ss) 0 ss [] = (evs1, Inr (steps g))"
    by blast
  from image_loop_Inr[OF l] have "length (steps g) = length ss" by auto
  with p s show ?thesis by blast
qed

theorem guide_length_is_plan_length_witness:
  "generateRepairGuide okEnv problem photo =
     (spec_trace ''...'' ''image/jpeg'' (Some ''QUJD'') problem (map prompt_of threeSteps),
      Inr (guideOf [(1, ''Gather wood glue and a clamp.''), (2, ''Spread glue into the crack.''),
                    (3, ''Clamp the leg overnight.'')])) \<and>
   (\<exists>evs0 plan ss. planning okEnv problem photo = (evs0, Inr plan) \<and>
      steps_entries plan = Inr ss \<and>
      length (steps (guideOf [(1, ''Gather wood glue and a clamp.''),
                              (2, ''Spread glue into the crack.''),
                              (3, ''Clamp the leg overnight.'')])) = length ss)"
  using okEnv_run guide_length_is_plan_length[OF okEnv_run] by blast

text \<open>
  C1 as stated fails: a plan of two steps gives a guide of two steps, outside 3 to 5.
\<close>

theorem short_plan_counterexample:
  "snd (generateRepairGuide (planEnv twoSteps alwaysOne) problem photo) =
     Inr (guideOf [(1, ''Gather wood glue and a clamp.''), (2, ''Glue and clamp the leg.'')]) \<and>
   \<not> (3 \<le> length (steps (guideOf [(1, ''Gather wood glue and a clamp.''),
                                    (2, ''Glue and clamp the leg.'')])))"
  by (simp add: twoSteps_run) (simp add: guideOf_def)

text \<open>
  C2, as the code has it: when the text of the planning response is not JSON, the run
  fails with the error "The AI returned an unexpected format. Please try again.", after
  one reasoning call and without any image call. A text that is JSON is not compared
  with the expected shape.
\<close>

theorem unparseable_answer_fails_before_images:
  assumes "\<not> falsy (API_KEY e)" and "fileToBase64 e f = Inr data"
    and "generateContent e (getMimeType f) data d = Inr r"
    and "responseText r = Some (NotJSON raw)"
  shows "generateRepairGuide e d f =
           ([Progress ''Analyzing item and planning repair...'',
             ReasoningCall (getMimeType f) data d, ConsoleError raw],
            Inl (Error ''The AI returned an unexpected format. Please try again.'')) \<and>
         filter is_image_call (fst (generateRepairGuide e d f)) = [] \<and>
         length (filter is_reasoning_call (fst (generateRepairGuide e d f))) = 1"
  using assms
  by (simp add: generateRepairGuide_def planning_def is_image_call_def is_reasoning_call_def)

theorem unparseable_answer_fails_before_images_witness:
  "\<not> falsy (API_KEY garbledEnv) \<and>
   generateRepairGuide garbledEnv problem photo =
     ([Progress ''Analyzing item and planning repair...'',
       ReasoningCall (getMimeType photo) (Some ''QUJD'') problem,
       ConsoleError ''Sorry, I cannot help.''],
      Inl (Error ''The AI returned an unexpected format. Please try again.'')) \<and>
   filter is_image_call (fst (generateRepairGuide garbledEnv problem photo)) = [] \<and>
   length (filter is_reasoning_call (fst (generateRepairGuide garbledEnv problem photo))) = 1"
proof -
  have k: "\<not> falsy (API_KEY garbledEnv)"
    by (simp add: garbledEnv_def serviceEnv_def falsy_def)
  have b: "fileToBase64 garbledEnv photo = Inr (Some ''QUJD'')"
    by (simp add: garbledEnv_def serviceEnv_def fileToBase64_def at_index_def)
  have c: "generateContent garbledEnv (getMimeType photo) (Some ''QUJD'') problem =
             Inr \<lparr>responseText = Some (NotJSON ''Sorry, I cannot help.'')\<rparr>"
    by (simp add: garbledEnv_def serviceEnv_def)
  have t: "responseText \<lparr>responseText = Some (NotJSON ''Sorry, I cannot help.'')\<rparr> =
             Some (NotJSON ''Sorry, I cannot help.'')"
    by simp
  show ?thesis
    using k unparseable_answer_fails_before_images[OF k b c t] by blast
qed

text \<open>
  C2 as stated fails: a plan of a single step is outside the expected shape, yet the run
  returns a guide and asks for an image.
\<close>

theorem unchecked_shape_counterexample:
  "snd (generateRepairGuide (planEnv oneStep alwaysOne) problem photo) =
     Inr (guideOf [(1, ''Glue and clamp the leg.'')]) \<and>
   length (filter is_image_call
            (fst (generateRepairGuide (planEnv oneStep alwaysOne) problem photo))) = 1"
  by (simp add: oneStep_run) (simp add: spec_trace_def oneStep_def is_image_call_def)



text \<open>
  C4, as the code has it: in a guide that a run returns, each step carries the
  \<open>stepNumber\<close> and the \<open>description\<close> of the plan step at the same position, as the
  reasoning service gave them. The numbers are not checked: they are 1, 2, ... in the
  guide when they are so in the plan.
\<close>

theorem guide_steps_copy_plan_steps:
  assumes "generateRepairGuide e d f = (evs, Inr g)"
  shows "\<exists>evs0 plan ss. planning e d f = (evs0, Inr plan) \<and> steps_entries plan = Inr ss \<and>
           map (\<lambda>s. getProp s ''stepNumber'') ss = map (\<lambda>t. Inr (stepNumber t)) (steps g) \<and>
           map (\<lambda>s. getProp s ''description'') ss = map (\<lambda>t. Inr (description t)) (steps g) \<and>
           ((\<forall>i<length ss. getProp (ss ! i) ''stepNumber'' = Inr (Some (JNumber (int i + 1)))) \<longrightarrow>
            map stepNumber (steps g) = map (\<lambda>i. Some (JNumber (int i + 1))) [0..<length ss])"
proof -
  from generateRepairGuide_Inr[OF assms] obtain evs0 plan ss evs1 where
    p: "planning e d f = (evs0, Inr plan)" and s: "steps_entries plan = Inr ss" and
    l: "image_loop e (length ss) 0 ss [] = (evs1, Inr (steps g))"
    by blast
  from image_loop_Inr[OF l] have
    len: "length (steps g) = length ss" and
    n: "map (\<lambda>s. getProp s ''stepNumber'') ss = map (\<lambda>t. Inr (stepNumber t)) (steps g)" and
    ds: "map (\<lambda>s. getProp s ''description'') ss = map (\<lambda>t. Inr (description t)) (steps g)"
    by auto
  have seq: "map stepNumber (steps g) = map (\<lambda>i. Some (JNumber (int i + 1))) [0..<length ss]"
    if a: "\<forall>i<length ss. getProp (ss ! i) ''stepNumber'' = Inr (Some (JNumber (int i + 1)))"
  proof (rule nth_equalityI)
    show "length (map stepNumber (steps g)) = length (map (\<lambda>i. Some (JNumber (int i + 1))) [0..<length ss])"
      using len by simp
  next
    fix i assume "i < length (map stepNumber (steps g))"
    then have i: "i < length ss" using len by simp
    from n have "map (\<lambda>s. getProp s ''stepNumber'') ss ! i = map (\<lambda>t. Inr (stepNumber t)) (steps g) ! i"
      by simp
    with i len have "getProp (ss ! i) ''stepNumber'' = Inr (stepNumber (steps g ! i))" by simp
    with a i have "stepNumber (steps g ! i) = Some (JNumber (int i + 1))" by simp
    with i len show "map stepNumber (steps g) ! i = map (\<lambda>i. Some (JNumber (int i + 1))) [0..<length ss] ! i"
      by simp
  qed
  from p s n ds seq show ?thesis by blast
qed

theorem guide_steps_copy_plan_steps_witness:
  "generateRepairGuide okEnv problem photo =
     (spec_trace ''...'' ''image/jpeg'' (Some ''QUJD'') problem (map prompt_of threeSteps),
      Inr (guideOf [(1, ''Gather wood glue and a clamp.''), (2, ''Spread glue into the crack.''),
                    (3, ''Clamp the leg overnight.'')])) \<and>
   map (\<lambda>s. getProp s ''stepNumber'') threeSteps =
     [Inr (Some (JNumber 1)), Inr (Some (JNumber 2)), Inr (Some (JNumber 3))] \<and>
   map stepNumber (steps (guideOf [(1, ''Gather wood glue and a clamp.''),
         (2, ''Spread glue into the crack.''), (3, ''Clamp the leg overnight.'')])) =
     [Some (JNumber 1), Some (JNumber 2), Some (JNumber 3)]"
proof -
  have a: "\<forall>i<length threeSteps. getProp (threeSteps ! i) ''stepNumber'' = Inr (Some (JNumber (int i + 1)))"
    by (simp add: threeSteps_def planStep_def less_Suc_eq numeral_3_eq_3)
  from guide_steps_copy_plan_steps[OF okEnv_run] obtain evs0 plan ss where
    p: "planning okEnv problem photo = (evs0, Inr plan)" and s: "steps_entries plan = Inr ss" and
    c: "(\<forall>i<length ss. getProp (ss ! i) ''stepNumber'' = Inr (Some (JNumber (int i + 1)))) \<longrightarrow>
        map stepNumber (steps (guideOf [(1, ''Gather wood glue and a clamp.''),
         (2, ''Spread glue into the crack.''), (3, ''Clamp the leg overnight.'')])) =
        map (\<lambda>i. Some (JNumber (int i + 1))) [0..<length ss]"
    by blast
  from p have "plan = planOf threeSteps" by (simp add: okEnv_def plan_run)
  with s have ss: "ss = threeSteps" by (simp add: plan_entries)
  from c a ss have "map stepNumber (steps (guideOf [(1, ''Gather wood glue and a clamp.''),
         (2, ''Spread glue into the crack.''), (3, ''Clamp the leg overnight.'')])) =
        map (\<lambda>i. Some (JNumber (int i + 1))) [0..<length threeSteps]"
    by simp
  then have "map stepNumber (steps (guideOf [(1, ''Gather wood glue and a clamp.''),
         (2, ''Spread glue into the crack.''), (3, ''Clamp the leg overnight.'')])) =
     [Some (JNumber 1), Some (JNumber 2), Some (JNumber 3)]"
    by (simp add: threeSteps_def upt_rec)
  moreover have "map (\<lambda>s. getProp s ''stepNumber'') threeSteps =
     [Inr (Some (JNumber 1)), Inr (Some (JNumber 2)), Inr (Some (JNumber 3))]"
    by (simp add: threeSteps_def planStep_def)
  ultimately show ?thesis using okEnv_run by blast
qed

text \<open>
  C4 as stated fails: a plan numbered 7, 7, 2 gives a guide numbered 7, 7, 2.
\<close>

theorem misnumbered_plan_counterexample:
  "snd (generateRepairGuide (planEnv misnumberedSteps alwaysOne) problem photo) =
     Inr (guideOf [(7, ''Gather wood glue and a clamp.''), (7, ''Spread glue into the crack.''),
                   (2, ''Clamp the leg overnight.'')]) \<and>
   map stepNumber (steps (guideOf [(7, ''Gather wood glue and a clamp.''),
       (7, ''Spread glue into the crack.''), (2, ''Clamp the leg overnight.'')])) =
     [Some (JNumber 7), Some (JNumber 7), Some (JNumber 2)]"
  by (simp add: misnumbered_run) (simp add: guideOf_def)





text \<open>
  C9: without an API key, \<open>generateRepairGuide\<close> fails with the error "API_KEY
  environment variable is not set." before any event: no progress message, no call.
\<close>

theorem missing_key_fails_at_once:
  assumes "falsy (API_KEY e)"
  shows "generateRepairGuide e d f =
           ([], Inl (Error ''API_KEY environment variable is not set.''))"
  using assms by (simp add: generateRepairGuide_def)

theorem missing_key_fails_at_once_witness:
  "falsy (API_KEY noKeyEnv) \<and>
   generateRepairGuide noKeyEnv problem photo =
     ([], Inl (Error ''API_KEY environment variable is not set.''))"
proof -
  have a: "falsy (API_KEY noKeyEnv)" by (simp add: noKeyEnv_def serviceEnv_def falsy_def)
  from missing_key_fails_at_once[OF a] a show ?thesis by blast
qed

section \<open>The presentation shell\<close>

text \<open>Putting a state on the page changes the ref and nothing else.\<close>

lemma commit_keeps:
  "problemDescription (commit s) = problemDescription s" "imageFile (commit s) = imageFile s"
  "previewUrl (commit s) = previewUrl s" "guide (commit s) = guide s"
  "isLoading (commit s) = isLoading s" "loadingMessage (commit s) = loadingMessage s"
  "error (commit s) = error s"
  by (simp_all add: commit_def split: option.split)

lemma commit_views:
  "showsForm (commit s) = showsForm s" "showsLoading (commit s) = showsLoading s"
  "showsResult (commit s) = showsResult s"
  by (simp_all add: showsForm_def showsLoading_def showsResult_def commit_keeps)

text \<open>The progress callback changes the loading message and nothing else.\<close>

lemma onEvent_keeps:
  "guide (onEvent s ev) = guide s" "isLoading (onEvent s ev) = isLoading s"
  "error (onEvent s ev) = error s"
  by (cases ev; simp)+

lemma scan_not_empty: "scan f s xs \<noteq> []"
  by (cases xs) simp_all

lemma scan_keeps:
  "t \<in> set (scan onEvent s evs) \<Longrightarrow>
     guide t = guide s \<and> isLoading t = isLoading s \<and> error t = error s"
proof (induction evs arbitrary: s)
  case Nil
  then show ?case by simp
next
  case (Cons ev evs)
  then show ?case using onEvent_keeps[of s ev] by auto
qed

lemma last_scan_keeps:
  "guide (last (scan onEvent s evs)) = guide s"
  "isLoading (last (scan onEvent s evs)) = isLoading s"
  "error (last (scan onEvent s evs)) = error s"
  using scan_keeps[of "last (scan onEvent s evs)" s evs] scan_not_empty[of onEvent s evs]
  by simp_all

lemma handleGenerateGuide_run:
  assumes "imageFile s = Some f" "problemDescription s \<noteq> []"
    and "generateRepairGuide e (problemDescription s) f = (evs, outcome)"
  shows "handleGenerateGuide e s =
           scan onEvent (commit (startRequest s)) evs @
           [commit (finishRequest outcome (last (scan onEvent (commit (startRequest s)) evs)))]"
  using assms by (simp add: handleGenerateGuide_def Let_def)

lemma filledForm_fields:
  "imageFile filledForm = Some photo" "problemDescription filledForm = problem"
  "problem \<noteq> []" "\<not> isLoading filledForm"
  by (simp_all add: filledForm_def initialState_def problem_def)

lemma resultPage_fields:
  "imageFile resultPage = Some photo" "problemDescription resultPage = problem"
  "\<not> isLoading resultPage" "guide resultPage = Some (guideOf [(1, ''Glue and clamp the leg.'')])"
  by (simp_all add: resultPage_def filledForm_def initialState_def)

lemma unreadable_run:
  "generateRepairGuide unreadableEnv problem photo =
     ([Progress ''Analyzing item and planning repair...''], Inl NonError)"
  by (simp add: unreadableEnv_def okEnv_def fixture_defs generateRepairGuide_def falsy_def
      planning_def fileToBase64_def)

lemma emptyObject_run:
  "generateRepairGuide emptyObjectEnv problem photo =
     ([Progress ''Analyzing item and planning repair...'',
       ReasoningCall ''image/jpeg'' (Some ''QUJD'') problem],
      Inl (TypeError ''Cannot read properties of undefined (reading 'entries')''))"
  by (simp add: emptyObjectEnv_def fixture_defs run_defs)

text \<open>
  C6: when \<open>handleGenerateGuide\<close> has called the service and the call is over, by a
  guide or by a failure, the loading flag is off and the loading message is empty; after
  a failure, whatever was thrown, the page shows the form and the error slot holds the
  display string: the message of an \<open>Error\<close> (a \<open>TypeError\<close> is one), and "An unknown
  error occurred." for a value that is not an \<open>Error\<close>.
\<close>

theorem failure_returns_to_form:
  assumes "imageFile s = Some f" and "problemDescription s \<noteq> []"
    and "generateRepairGuide e (problemDescription s) f = (evs, outcome)"
  shows "\<not> isLoading (last (handleGenerateGuide e s)) \<and>
         \<not> showsLoading (last (handleGenerateGuide e s)) \<and>
         loadingMessage (last (handleGenerateGuide e s)) = [] \<and>
         (\<forall>err. outcome = Inl err \<longrightarrow>
            error (last (handleGenerateGuide e s)) = Some (errorMessage err) \<and>
            showsForm (last (handleGenerateGuide e s))) \<and>
         (\<forall>message. outcome = Inl (Error message) \<longrightarrow>
            error (last (handleGenerateGuide e s)) = Some message) \<and>
         (\<forall>message. outcome = Inl (TypeError message) \<longrightarrow>
            error (last (handleGenerateGuide e s)) = Some message) \<and>
         (outcome = Inl NonError \<longrightarrow>
            error (last (handleGenerateGuide e s)) = Some ''An unknown error occurred.'')"
proof -
  let ?m = "last (scan onEvent (commit (startRequest s)) evs)"
  have l: "last (handleGenerateGuide e s) = commit (finishRequest outcome ?m)"
    using handleGenerateGuide_run[OF assms] by simp
  have g: "guide ?m = None"
    using last_scan_keeps(1)[of "commit (startRequest s)" evs]
    by (simp add: startRequest_def commit_keeps)
  show ?thesis
    unfolding l using g
    by (cases outcome)
       (auto simp: finishRequest_def showsForm_def showsLoading_def commit_keeps
          errorMessage_def)
qed

theorem failure_returns_to_form_witness:
  "imageFile filledForm = Some photo \<and> problemDescription filledForm \<noteq> [] \<and>
   \<not> isLoading (last (handleGenerateGuide (planEnv threeSteps noneAtSecond) filledForm)) \<and>
   loadingMessage (last (handleGenerateGuide (planEnv threeSteps noneAtSecond) filledForm)) = [] \<and>
   error (last (handleGenerateGuide (planEnv threeSteps noneAtSecond) filledForm)) =
     Some ''Failed to generate an image for step 2.'' \<and>
   showsForm (last (handleGenerateGuide (planEnv threeSteps noneAtSecond) filledForm)) \<and>
   error (last (handleGenerateGuide unreadableEnv filledForm)) =
     Some ''An unknown error occurred.'' \<and>
   showsForm (last (handleGenerateGuide unreadableEnv filledForm)) \<and>
   error (last (handleGenerateGuide emptyObjectEnv filledForm)) =
     Some ''Cannot read properties of undefined (reading 'entries')'' \<and>
   showsForm (last (handleGenerateGuide emptyObjectEnv filledForm))"
proof -
  have a: "imageFile filledForm = Some photo" by (rule filledForm_fields)
  have b: "problemDescription filledForm \<noteq> []" by (simp add: filledForm_fields)
  have c: "generateRepairGuide (planEnv threeSteps noneAtSecond) (problemDescription filledForm)
             photo =
           (take 6 (spec_trace ''...'' ''image/jpeg'' (Some ''QUJD'') problem
                      (map prompt_of threeSteps)),
            Inl (Error ''Failed to generate an image for step 2.''))"
    by (simp only: filledForm_fields failing_run)
  have d: "generateRepairGuide unreadableEnv (problemDescription filledForm) photo =
             ([Progress ''Analyzing item and planning repair...''], Inl NonError)"
    by (simp only: filledForm_fields unreadable_run)
  have t: "generateRepairGuide emptyObjectEnv (problemDescription filledForm) photo =
     ([Progress ''Analyzing item and planning repair...'',
       ReasoningCall ''image/jpeg'' (Some ''QUJD'') problem],
      Inl (TypeError ''Cannot read properties of undefined (reading 'entries')''))"
    by (simp only: filledForm_fields emptyObject_run)
  from failure_returns_to_form[OF a b c] have 1:
    "\<not> isLoading (last (handleGenerateGuide (planEnv threeSteps noneAtSecond) filledForm)) \<and>
     loadingMessage (last (handleGenerateGuide (planEnv threeSteps noneAtSecond) filledForm)) = [] \<and>
     error (last (handleGenerateGuide (planEnv threeSteps noneAtSecond) filledForm)) =
       Some ''Failed to generate an image for step 2.'' \<and>
     showsForm (last (handleGenerateGuide (planEnv threeSteps noneAtSecond) filledForm))"
    by blast
  from failure_returns_to_form[OF a b d] have 2:
    "error (last (handleGenerateGuide unreadableEnv filledForm)) =
       Some ''An unknown error occurred.'' \<and>
     showsForm (last (handleGenerateGuide unreadableEnv filledForm))"
    by blast
  from failure_returns_to_form[OF a b t] have 3:
    "error (last (handleGenerateGuide emptyObjectEnv filledForm)) =
       Some ''Cannot read properties of undefined (reading 'entries')'' \<and>
     showsForm (last (handleGenerateGuide emptyObjectEnv filledForm))"
    by blast
  from 1 2 3 a b show ?thesis by blast
qed



text \<open>
  C7: from the result view, \<open>handleReset\<close> puts the description, the image, the
  preview, the guide and the error back to their initial empty values, and the page
  shows the form.
\<close>

theorem reset_returns_to_empty_form:
  assumes "showsResult s" and "\<not> isLoading s"
  shows "problemDescription (handleReset s) = problemDescription initialState \<and>
         imageFile (handleReset s) = imageFile initialState \<and>
         previewUrl (handleReset s) = previewUrl initialState \<and>
         guide (handleReset s) = guide initialState \<and>
         error (handleReset s) = error initialState \<and>
         problemDescription (handleReset s) = [] \<and> imageFile (handleReset s) = None \<and>
         previewUrl (handleReset s) = None \<and> guide (handleReset s) = None \<and>
         error (handleReset s) = None \<and> showsForm (handleReset s)"
  using assms
  by (simp add: handleReset_def initialState_def showsForm_def commit_keeps Let_def
      split: option.split)

theorem reset_returns_to_empty_form_witness:
  "showsResult resultPage \<and> \<not> isLoading resultPage \<and>
   handleReset resultPage = initialState \<and> showsForm (handleReset resultPage)"
proof -
  have a: "showsResult resultPage" by (simp add: showsResult_def resultPage_fields)
  have b: "\<not> isLoading resultPage" by (rule resultPage_fields)
  have c: "handleReset resultPage = initialState"
    by (simp add: handleReset_def resultPage_def filledForm_def initialState_def commit_def
        showsForm_def)
  from reset_returns_to_empty_form[OF a b] a b c show ?thesis by simp
qed

text \<open>
  C8: \<open>handleFileChange\<close> takes a file of exactly 4194304 bytes (4 MiB) as the new image
  with its preview, and answers a file of 4194305 bytes by setting the error message
  only: the image and the preview selected before stay.
\<close>

theorem file_size_boundary:
  "(file_size f = 4194304 \<longrightarrow>
      handleFileChange e (Some f) s =
        s\<lparr>imageFile := Some f, previewUrl := Some (createObjectURL e f), error := None\<rparr>) \<and>
   (file_size f = 4194305 \<longrightarrow>
      handleFileChange e (Some f) s =
        s\<lparr>error := Some ''Image file is too large. Please select a file under 4MB.''\<rparr> \<and>
      imageFile (handleFileChange e (Some f) s) = imageFile s \<and>
      previewUrl (handleFileChange e (Some f) s) = previewUrl s)"
  by (simp add: handleFileChange_def)

theorem file_size_boundary_witness:
  "file_size (photo\<lparr>file_size := 4194304\<rparr>) = 4194304 \<and>
   handleFileChange okEnv (Some (photo\<lparr>file_size := 4194304\<rparr>)) initialState =
     initialState\<lparr>imageFile := Some (photo\<lparr>file_size := 4194304\<rparr>),
                  previewUrl := Some ''blob:chair.jpg'', error := None\<rparr> \<and>
   file_size (photo\<lparr>file_size := 4194305\<rparr>) = 4194305 \<and>
   handleFileChange okEnv (Some (photo\<lparr>file_size := 4194305\<rparr>)) filledForm =
     filledForm\<lparr>error := Some ''Image file is too large. Please select a file under 4MB.''\<rparr> \<and>
   imageFile (handleFileChange okEnv (Some (photo\<lparr>file_size := 4194305\<rparr>)) filledForm) =
     Some photo"
proof -
  have u: "createObjectURL okEnv (photo\<lparr>file_size := 4194304\<rparr>) = ''blob:chair.jpg''"
    by (simp add: okEnv_def planEnv_def serviceEnv_def photo_def)
  have a: "file_size (photo\<lparr>file_size := 4194304\<rparr>) = 4194304" by simp
  have b: "file_size (photo\<lparr>file_size := 4194305\<rparr>) = 4194305" by simp
  from file_size_boundary[of "photo\<lparr>file_size := 4194304\<rparr>" okEnv initialState]
       file_size_boundary[of "photo\<lparr>file_size := 4194305\<rparr>" okEnv filledForm] a b u
  show ?thesis by (simp add: filledForm_fields)
qed

end
